theory Spec2Isabelle
  imports Complex_Main
begin

section \<open>Data model\<close>

text \<open>
  A row of the vectorized DataFrame handed to \<open>smote\<close>: the target column \<open>label\<close>, the
  assembled vector column \<open>features_for_model\<close>, and the remaining (auxiliary) columns,
  stored by position. Cell values are numbers or strings; vectors are lists of reals
  (a dense and a sparse vector with the same entries are the same list, which is what
  \<open>toArray\<close> makes of them before the arithmetic).
\<close>

datatype val = Num real | Str string

type_synonym vec = "real list"

record row =
  label :: val
  features_for_model :: vec
  aux :: "val list"

text \<open>The class \<open>SmoteConfig\<close>.\<close>

record SmoteConfig =
  seed :: int
  bucketLength :: real
  k :: int
  multiplier :: int
  positive_label :: val
  negative_label :: val

text \<open>
  A row of the similarity self-join: the two struct columns \<open>datasetA\<close> and \<open>datasetB\<close>
  and the distance column.
\<close>

record pair =
  datasetA :: row
  datasetB :: row
  EuclideanDistance :: real

text \<open>The columns of the input, and the two sides a synthetic row can copy a column from.\<close>

datatype column = Label | Features | Aux nat

datatype side = SideA | SideB

datatype error = ValueError | TypeError | FitError | AnalysisException | EngineError

text \<open>
  What the code draws from outside itself, as explicit parameters of one run:
  \<^item> \<open>brp_fit s b df\<close>: the hash function of the model that
    \<open>BucketedRandomProjectionLSH(seed=s, bucketLength=b).fit(df)\<close> returns, \<open>None\<close> when
    the engine cannot fit;
  \<^item> \<open>F_rand i j\<close>: the value of the unseeded column \<open>F.rand()\<close> of batch \<open>i\<close> in its
    \<open>j\<close>-th row;
  \<^item> \<open>random_uniform i j\<close>: the value \<open>random.uniform(0, 1)\<close> returns inside
    \<open>subtract_vector_fn\<close> for the \<open>j\<close>-th selected pair of batch \<open>i\<close>;
  \<^item> \<open>random_choice i c\<close>: what \<open>random.choice(['datasetA','datasetB'])\<close> returns for
    column \<open>c\<close> in batch \<open>i\<close>;
  \<^item> \<open>F_rand_seeded s j\<close>: the value of the column \<open>F.rand(seed=s)\<close> in the \<open>j\<close>-th row.
\<close>

record env =
  brp_fit :: "int \<Rightarrow> real \<Rightarrow> row list \<Rightarrow> (vec \<Rightarrow> int list) option"
  F_rand :: "nat \<Rightarrow> nat \<Rightarrow> real"
  random_uniform :: "nat \<Rightarrow> nat \<Rightarrow> real"
  random_choice :: "nat \<Rightarrow> column \<Rightarrow> side"
  F_rand_seeded :: "int \<Rightarrow> nat \<Rightarrow> real"

section \<open>Vector arithmetic of the two UDFs\<close>

text \<open>
  \<open>subtract_vector_fn\<close> returns \<open>random.uniform(0, 1) * (a - b)\<close>; the drawn number is the
  first argument here. \<open>add_vector_fn\<close> returns \<open>a + b\<close>. Both work entry by entry on
  vectors of one column, which have a common length.
\<close>

definition subtract_vector_fn :: "real \<Rightarrow> vec \<Rightarrow> vec \<Rightarrow> vec" where
  "subtract_vector_fn u a b = map (\<lambda>(x, y). u * (x - y)) (zip a b)"

definition add_vector_fn :: "vec \<Rightarrow> vec \<Rightarrow> vec" where
  "add_vector_fn a b = map (\<lambda>(x, y). x + y) (zip a b)"

section \<open>The similarity self-join and the candidate lists\<close>

text \<open>
  Two rows meet in the join when their hash vectors agree in some position; the join
  returns each such pair of rows once, with the Euclidean distance of their feature
  vectors, and keeps the pairs below the threshold (\<open>None\<close> stands for
  \<open>float('inf')\<close>).
\<close>

definition collide :: "int list \<Rightarrow> int list \<Rightarrow> bool" where
  "collide ha hb = list_ex (\<lambda>(x, y). x = y) (zip ha hb)"

definition keyDistance :: "vec \<Rightarrow> vec \<Rightarrow> real" where
  "keyDistance a b = sqrt (sum_list (map (\<lambda>(x, y). (x - y)\<^sup>2) (zip a b)))"

definition approxSimilarityJoin ::
  "(vec \<Rightarrow> int list) \<Rightarrow> row list \<Rightarrow> row list \<Rightarrow> real option \<Rightarrow> pair list" where
  "approxSimilarityJoin h dfA dfB threshold =
     filter (\<lambda>p. case threshold of None \<Rightarrow> True | Some t \<Rightarrow> EuclideanDistance p < t)
       (remdups (concat (map (\<lambda>a.
          map (\<lambda>b. \<lparr>datasetA = a, datasetB = b,
                     EuclideanDistance =
                       keyDistance (features_for_model a) (features_for_model b)\<rparr>)
            (filter (\<lambda>b. collide (h (features_for_model a)) (h (features_for_model b))) dfB))
          dfA)))"

text \<open>
  \<open>row_number().over(Window.partitionBy("datasetA").orderBy("EuclideanDistance"))\<close>:
  the pairs of one source row, sorted by distance and numbered from 1. Pairs at the same
  distance keep the order in which the join delivered them.
\<close>

definition row_number_over :: "pair list \<Rightarrow> (pair \<times> nat) list" where
  "row_number_over ps =
     concat (map (\<lambda>a.
         (let part = sort_key EuclideanDistance (filter (\<lambda>p. datasetA p = a) ps)
          in zip part [1..<Suc (length part)]))
       (remdups (map datasetA ps)))"

definition self_similarity_df_selected ::
  "(vec \<Rightarrow> int list) \<Rightarrow> SmoteConfig \<Rightarrow> row list \<Rightarrow> (pair \<times> nat) list" where
  "self_similarity_df_selected h cfg dataInput_min =
     (let self_join_w_distance = approxSimilarityJoin h dataInput_min dataInput_min None;
          self_join_w_distance = filter (\<lambda>p. EuclideanDistance p > 0) self_join_w_distance;
          self_similarity_df = row_number_over self_join_w_distance
      in filter (\<lambda>(p, r_num). int r_num \<le> k cfg) self_similarity_df)"

section \<open>One batch of synthetic rows\<close>

text \<open>\<open>F.max\<close> over a window: the largest value of the partition, null on no rows.\<close>

definition F_max :: "real list \<Rightarrow> real option" where
  "F_max xs = (case xs of [] \<Rightarrow> None | x # ys \<Rightarrow> Some (fold max ys x))"

definition df_random_sel :: "env \<Rightarrow> nat \<Rightarrow> (pair \<times> nat) list \<Rightarrow> pair list" where
  "df_random_sel e i sel =
     (let with_rand = zip sel (map (F_rand e i) [0..<length sel]);
          max_rand = (\<lambda>a. F_max (map snd
                             (filter (\<lambda>(q, r). datasetA (fst q) = a) with_rand)))
      in map (fst \<circ> fst)
           (filter (\<lambda>(q, r). Some r = max_rand (datasetA (fst q))) with_rand))"

definition pick :: "side \<Rightarrow> pair \<Rightarrow> row" where
  "pick s p = (case s of SideA \<Rightarrow> datasetA p | SideB \<Rightarrow> datasetB p)"

text \<open>
  The synthetic row of the \<open>j\<close>-th selected pair of batch \<open>i\<close>. The loop over
  \<open>original_cols\<close> draws a side for every column and sets every column but
  \<open>features_for_model\<close> from the side drawn for it (the draw for \<open>features_for_model\<close>
  is not used).
\<close>

definition synthetic_row :: "env \<Rightarrow> nat \<Rightarrow> nat \<Rightarrow> pair \<Rightarrow> row" where
  "synthetic_row e i j p =
     (let a = datasetA p; b = datasetB p;
          vec_diff = subtract_vector_fn (random_uniform e i j)
                       (features_for_model a) (features_for_model b)
      in \<lparr>label = label (pick (random_choice e i Label) p),
          features_for_model = add_vector_fn (features_for_model b) vec_diff,
          aux = map (\<lambda>(c, va, vb). case random_choice e i (Aux c) of
                                      SideA \<Rightarrow> va | SideB \<Rightarrow> vb)
                  (zip [0..<length (aux a)] (zip (aux a) (aux b)))\<rparr>)"

definition batch :: "env \<Rightarrow> (pair \<times> nat) list \<Rightarrow> nat \<Rightarrow> row list" where
  "batch e sel i =
     (let s = df_random_sel e i sel
      in map (\<lambda>(j, p). synthetic_row e i j p) (zip [0..<length s] s))"

section \<open>Reassembly and the whole of smote\<close>

text \<open>
  \<open>sort(F.rand(seed))\<close> orders the rows by their seeded random values;
  \<open>row_number().over(Window.orderBy(lit('A')))\<close> numbers the rows from 1 in the order
  they are in. Sorting is stable.
\<close>

definition sort_by_rand :: "(nat \<Rightarrow> real) \<Rightarrow> 'a list \<Rightarrow> 'a list" where
  "sort_by_rand g xs = map fst (sort_key snd (zip xs (map g [0..<length xs])))"

definition with_row_number :: "'a list \<Rightarrow> ('a \<times> nat) list" where
  "with_row_number xs = zip xs [1..<Suc (length xs)]"

definition reassemble :: "env \<Rightarrow> SmoteConfig \<Rightarrow> row list \<Rightarrow> row list \<Rightarrow> row list \<Rightarrow> row list" where
  "reassemble e cfg synthetic dataInput_min dataInput_maj =
     (let dfunion = with_row_number
                      (sort_by_rand (F_rand_seeded e (seed cfg)) (synthetic @ dataInput_min));
          dataInput_maj = with_row_number dataInput_maj;
          oversampled_df = dfunion @ dataInput_maj
      in map fst (sort_key snd oversampled_df))"

text \<open>
  \<open>reduce(DataFrame.union, res)\<close> has no initial value: on the empty list it raises
  \<open>TypeError\<close>.
\<close>

definition reduce_union :: "row list list \<Rightarrow> error + row list" where
  "reduce_union res = (case res of [] \<Rightarrow> Inl TypeError | _ \<Rightarrow> Inr (concat res))"

text \<open>
  The candidate lists of one run: the fitted hash function applied to the minority rows.
  (\<open>model.transform(dataInput_min)\<close> is called and its result dropped; it has no part
  in what \<open>smote\<close> returns.) \<open>smote\<close> itself runs the batches \<open>0, \<dots>, multiplier - 1\<close>,
  none when \<open>multiplier\<close> is below 1, unites them and reassembles.
\<close>

definition neighbor_index :: "env \<Rightarrow> SmoteConfig \<Rightarrow> row list \<Rightarrow> (pair \<times> nat) list option" where
  "neighbor_index e cfg dataInput_min =
     (case brp_fit e (seed cfg) (bucketLength cfg) dataInput_min of
        None \<Rightarrow> None
      | Some h \<Rightarrow> Some (self_similarity_df_selected h cfg dataInput_min))"

definition smote :: "env \<Rightarrow> SmoteConfig \<Rightarrow> row list \<Rightarrow> error + row list" where
  "smote e cfg vectorized_sdf =
     (let dataInput_min = filter (\<lambda>r. label r = positive_label cfg) vectorized_sdf;
          dataInput_maj = filter (\<lambda>r. label r = negative_label cfg) vectorized_sdf
      in case neighbor_index e cfg dataInput_min of
           None \<Rightarrow> Inl FitError
         | Some sel \<Rightarrow>
             (let res = map (batch e sel) [0..<nat (multiplier cfg)]
              in case reduce_union res of
                   Inl err \<Rightarrow> Inl err
                 | Inr dfunion \<Rightarrow>
                     Inr (reassemble e cfg dfunion dataInput_min dataInput_maj)))"

section \<open>Vectorization: pre_smote_df_process\<close>

text \<open>
  The raw DataFrame: its column names, and its rows as functions from column name to
  cell; a cell is a scalar or, after the assembler, a vector. Of a row only the cells of
  the listed columns belong to the frame.
\<close>

datatype cell = Scalar val | Vector vec

record raw_df =
  df_columns :: "string list"
  df_rows :: "(string \<Rightarrow> cell) list"

text \<open>
  \<open>select\<close>, \<open>withColumn\<close> (which replaces a column of that name in place and appends
  a new one) and \<open>drop\<close>.
\<close>

definition df_select :: "string list \<Rightarrow> raw_df \<Rightarrow> raw_df" where
  "df_select cols df = df\<lparr>df_columns := cols\<rparr>"

definition withColumn :: "string \<Rightarrow> ((string \<Rightarrow> cell) \<Rightarrow> cell) \<Rightarrow> raw_df \<Rightarrow> raw_df" where
  "withColumn c f df =
     \<lparr>df_columns = (if c \<in> set (df_columns df) then df_columns df else df_columns df @ [c]),
      df_rows = map (\<lambda>r. r(c := f r)) (df_rows df)\<rparr>"

definition df_drop :: "string \<Rightarrow> raw_df \<Rightarrow> raw_df" where
  "df_drop c df = df\<lparr>df_columns := filter (\<lambda>a. a \<noteq> c) (df_columns df)\<rparr>"

text \<open>
  \<open>pre_smote_df_process\<close> first counts the distinct values of the target column and
  raises \<open>ValueError\<close> unless there are exactly two. Then it takes the target out of the
  numeric columns and runs the pipeline: one \<open>StringIndexer\<close> for every categorical
  column other than the target (the code takes them from a set, so they come as a set of
  input and output column names) and the \<open>VectorAssembler\<close> of the numeric columns into
  \<open>features_for_model\<close>. The fitted and applied pipeline is the parameter
  \<open>Pipeline_fit_transform\<close>; it returns the frame \<open>pos_vectorized\<close> or the engine's error.
  Of \<open>pos_vectorized\<close> the columns that are neither numeric nor categorical are kept;
  \<open>withColumn('label', pos_vectorized[target_col])\<close> on that selection raises
  \<open>AnalysisException\<close> when the target is not among the kept columns; at last the column
  \<open>target_col\<close> is dropped, which is the new column itself when the target is named
  \<open>label\<close>.
\<close>

definition pre_smote_df_process ::
  "((string \<times> string) set \<Rightarrow> string list \<times> string \<Rightarrow> raw_df \<Rightarrow> error + raw_df) \<Rightarrow>
     raw_df \<Rightarrow> string list \<Rightarrow> string list \<Rightarrow> string \<Rightarrow> string \<Rightarrow> error + raw_df" where
  "pre_smote_df_process Pipeline_fit_transform df num_cols cat_cols target_col index_suffix =
     (if length (remdups (map (\<lambda>r. r target_col) (df_rows df))) \<noteq> 2 then Inl ValueError
      else
        (let num_cols = remove1 target_col num_cols;
             assembler = (num_cols, ''features_for_model'');
             assemble_stages =
               (\<lambda>column. (column, column @ index_suffix)) ` (set cat_cols - {target_col})
         in case Pipeline_fit_transform assemble_stages assembler df of
              Inl err \<Rightarrow> Inl err
            | Inr pos_vectorized \<Rightarrow>
                (let drop_cols = num_cols @ cat_cols;
                     keep_cols = filter (\<lambda>a. a \<notin> set drop_cols) (df_columns pos_vectorized)
                 in if target_col \<notin> set keep_cols then Inl AnalysisException
                    else Inr (df_drop target_col
                                (withColumn ''label'' (\<lambda>r. r target_col)
                                   (df_select keep_cols pos_vectorized))))))"

section \<open>A concrete run\<close>

text \<open>
  Two minority rows \<open>A = [0,0]\<close> and \<open>B = [2,0]\<close>, one majority row \<open>C = [10,10]\<close>,
  \<open>k = 1\<close>, \<open>multiplier = 1\<close>; a hash function that puts every vector into one
  bucket, a fit that needs a first row, and fixed random draws.
\<close>

definition row_A :: row where
  "row_A = \<lparr>label = Num 1, features_for_model = [0, 0], aux = [Str ''a'']\<rparr>"

definition row_B :: row where
  "row_B = \<lparr>label = Num 1, features_for_model = [2, 0], aux = [Str ''b'']\<rparr>"

definition row_C :: row where
  "row_C = \<lparr>label = Num 0, features_for_model = [10, 10], aux = [Str ''c'']\<rparr>"

text \<open>A third minority row with the features of \<open>A\<close> and another auxiliary value.\<close>

definition row_D :: row where
  "row_D = \<lparr>label = Num 1, features_for_model = [0, 0], aux = [Str ''d'']\<rparr>"

definition cfg_ex :: SmoteConfig where
  "cfg_ex = \<lparr>seed = 42, bucketLength = 1, k = 1, multiplier = 1,
             positive_label = Num 1, negative_label = Num 0\<rparr>"

definition hash_ex :: "vec \<Rightarrow> int list" where
  "hash_ex v = [0]"

definition env_ex :: env where
  "env_ex = \<lparr>brp_fit = (\<lambda>s b df. case df of [] \<Rightarrow> None | _ \<Rightarrow> Some hash_ex),
             F_rand = (\<lambda>i j. real j / 10),
             random_uniform = (\<lambda>i j. 1 / 2),
             random_choice = (\<lambda>i c. case c of Aux _ \<Rightarrow> SideB | _ \<Rightarrow> SideA),
             F_rand_seeded = (\<lambda>s j. if j = 0 then 1 else 0)\<rparr>"

definition pair_AB :: pair where
  "pair_AB = \<lparr>datasetA = row_A, datasetB = row_B, EuclideanDistance = 2\<rparr>"

definition pair_BA :: pair where
  "pair_BA = \<lparr>datasetA = row_B, datasetB = row_A, EuclideanDistance = 2\<rparr>"

text \<open>The two synthetic rows of the run, and a row with a third label.\<close>

definition syn_AB :: row where
  "syn_AB = \<lparr>label = Num 1, features_for_model = [1, 0], aux = [Str ''b'']\<rparr>"

definition syn_BA :: row where
  "syn_BA = \<lparr>label = Num 1, features_for_model = [1, 0], aux = [Str ''a'']\<rparr>"

definition row_X :: row where
  "row_X = \<lparr>label = Num 2, features_for_model = [5, 5], aux = [Str ''x'']\<rparr>"

text \<open>Configurations with \<open>k = 0\<close> and with \<open>multiplier = 0\<close>.\<close>

definition cfg_k0 :: SmoteConfig where
  "cfg_k0 = cfg_ex\<lparr>k := 0\<rparr>"

definition cfg_m0 :: SmoteConfig where
  "cfg_m0 = cfg_ex\<lparr>multiplier := 0\<rparr>"

text \<open>
  A raw DataFrame whose target column \<open>y\<close> has three values, one whose target column
  has two, and a pipeline that assembles the numeric columns and indexes nothing.
\<close>

definition raw_ex :: raw_df where
  "raw_ex = \<lparr>df_columns = [''x'', ''y''],
             df_rows = [(\<lambda>c. if c = ''x'' then Scalar (Num 1) else Scalar (Str ''p'')),
                        (\<lambda>c. if c = ''x'' then Scalar (Num 2) else Scalar (Str ''q'')),
                        (\<lambda>c. if c = ''x'' then Scalar (Num 3) else Scalar (Str ''r''))]\<rparr>"

definition raw_two :: "string \<Rightarrow> raw_df" where
  "raw_two target =
     \<lparr>df_columns = [''x'', target],
      df_rows = [(\<lambda>c. if c = ''x'' then Scalar (Num 1) else Scalar (Num 0)),
                 (\<lambda>c. if c = ''x'' then Scalar (Num 2) else Scalar (Num 1))]\<rparr>"

definition pipeline_ex ::
  "(string \<times> string) set \<Rightarrow> string list \<times> string \<Rightarrow> raw_df \<Rightarrow> error + raw_df" where
  "pipeline_ex indexers assembler df =
     Inr (withColumn (snd assembler)
            (\<lambda>r. Vector (map (\<lambda>c. case r c of Scalar (Num x) \<Rightarrow> x | _ \<Rightarrow> 0) (fst assembler)))
            df)"

text \<open>
  Two rows with two auxiliary columns each, the two pairs of them, and draws that take
  the first auxiliary column from the source and the second from the neighbour.
\<close>

definition row_P :: row where
  "row_P = \<lparr>label = Num 1, features_for_model = [0, 0], aux = [Str ''p1'', Str ''p2'']\<rparr>"

definition row_Q :: row where
  "row_Q = \<lparr>label = Num 1, features_for_model = [0, 4], aux = [Str ''q1'', Str ''q2'']\<rparr>"

definition pair_PQ :: pair where
  "pair_PQ = \<lparr>datasetA = row_P, datasetB = row_Q, EuclideanDistance = 4\<rparr>"

definition pair_QP :: pair where
  "pair_QP = \<lparr>datasetA = row_Q, datasetB = row_P, EuclideanDistance = 4\<rparr>"

definition env_mix :: env where
  "env_mix = env_ex\<lparr>random_choice :=
     (\<lambda>i c. case c of Aux n \<Rightarrow> (if even n then SideA else SideB) | _ \<Rightarrow> SideA)\<rparr>"

text \<open>
  A run in which two candidates of one source draw the same number: a third minority
  row \<open>E = [5,0]\<close>, \<open>k = 2\<close>, and an unseeded column whose first two values agree.
\<close>

definition row_E :: row where
  "row_E = \<lparr>label = Num 1, features_for_model = [5, 0], aux = [Str ''e'']\<rparr>"

definition cfg_k2 :: SmoteConfig where
  "cfg_k2 = cfg_ex\<lparr>k := 2\<rparr>"

definition env_tie :: env where
  "env_tie = env_ex\<lparr>F_rand := (\<lambda>i j. if j \<le> 1 then 1 / 2 else real j / 10)\<rparr>"

definition pair_AE :: pair where
  "pair_AE = \<lparr>datasetA = row_A, datasetB = row_E, EuclideanDistance = 5\<rparr>"

definition pair_BE :: pair where
  "pair_BE = \<lparr>datasetA = row_B, datasetB = row_E, EuclideanDistance = 3\<rparr>"

definition pair_EA :: pair where
  "pair_EA = \<lparr>datasetA = row_E, datasetB = row_A, EuclideanDistance = 5\<rparr>"

definition pair_EB :: pair where
  "pair_EB = \<lparr>datasetA = row_E, datasetB = row_B, EuclideanDistance = 3\<rparr>"

text \<open>
  An engine whose fitted hash function projects a vector on its first axis and divides by
  the bucket length: with bucket length 1 the rows \<open>A\<close> and \<open>B\<close> fall into different
  buckets.
\<close>

definition hash_axis :: "real \<Rightarrow> vec \<Rightarrow> int list" where
  "hash_axis b v = [\<lfloor>(case v of [] \<Rightarrow> 0 | x # _ \<Rightarrow> x) / b\<rfloor>]"

definition env_axis :: env where
  "env_axis = env_ex\<lparr>brp_fit := (\<lambda>s b df. case df of [] \<Rightarrow> None | _ \<Rightarrow> Some (hash_axis b))\<rparr>"

section \<open>Facts about the stages\<close>

lemma keyDistance_self: "keyDistance a a = 0"
  by (simp add: keyDistance_def zip_same_conv_map comp_def)

lemma in_join:
  "p \<in> set (approxSimilarityJoin h dfA dfB t) \<Longrightarrow>
     datasetA p \<in> set dfA \<and> datasetB p \<in> set dfB \<and>
     EuclideanDistance p =
       keyDistance (features_for_model (datasetA p)) (features_for_model (datasetB p))"
  by (auto simp: approxSimilarityJoin_def)

lemma fst_zip_upt: "map fst (zip xs [m..<m + length xs]) = xs"
  by (simp add: map_fst_zip)

lemma set_zip_numbered: "fst ` set (zip xs [1..<Suc (length xs)]) = set xs"
  using fst_zip_upt[of xs 1] by (metis plus_1_eq_Suc set_map)

lemma set_row_number_over: "fst ` set (row_number_over ps) = set ps"
proof -
  have "fst ` set (row_number_over ps) =
        (\<Union>a\<in>set ps. set (filter (\<lambda>p. datasetA p = datasetA a) ps))"
    unfolding row_number_over_def Let_def
    by (simp only: set_concat set_map image_UN set_zip_numbered set_remdups set_sort image_image)
  also have "\<dots> = set ps" by auto
  finally show ?thesis .
qed

lemma in_selected:
  assumes "(p, n) \<in> set (self_similarity_df_selected h cfg dmin)"
  shows "p \<in> set (approxSimilarityJoin h dmin dmin None) \<and> 0 < EuclideanDistance p"
proof -
  let ?J = "filter (\<lambda>p. 0 < EuclideanDistance p) (approxSimilarityJoin h dmin dmin None)"
  from assms have "(p, n) \<in> set (row_number_over ?J)"
    by (simp add: self_similarity_df_selected_def Let_def)
  then have "p \<in> fst ` set (row_number_over ?J)"
    by force
  then show ?thesis by (simp add: set_row_number_over)
qed

lemma in_df_random_sel:
  "p \<in> set (df_random_sel e i sel) \<Longrightarrow> p \<in> fst ` set sel"
  by (auto simp: df_random_sel_def Let_def dest!: set_zip_leftD)

subsection \<open>The concrete run, stage by stage\<close>

lemma rows_ex_distinct [simp]:
  "row_A \<noteq> row_B" "row_B \<noteq> row_A" "row_A \<noteq> row_D" "row_D \<noteq> row_A"
  "row_B \<noteq> row_D" "row_D \<noteq> row_B"
  by (simp_all add: row_A_def row_B_def row_D_def)

lemma join_ex:
  "approxSimilarityJoin hash_ex [row_A, row_B] [row_A, row_B] None =
     [\<lparr>datasetA = row_A, datasetB = row_A, EuclideanDistance = 0\<rparr>, pair_AB, pair_BA,
      \<lparr>datasetA = row_B, datasetB = row_B, EuclideanDistance = 0\<rparr>]"
  by (simp add: approxSimilarityJoin_def collide_def keyDistance_def hash_ex_def
        pair_AB_def pair_BA_def row_A_def row_B_def)

lemma selected_ex:
  "self_similarity_df_selected hash_ex cfg_ex [row_A, row_B] =
     [(pair_AB, Suc 0), (pair_BA, Suc 0)]"
  by (simp add: self_similarity_df_selected_def join_ex row_number_over_def
        pair_AB_def pair_BA_def cfg_ex_def)

lemma random_sel_ex:
  "df_random_sel env_ex i [(pair_AB, Suc 0), (pair_BA, Suc 0)] = [pair_AB, pair_BA]"
  by (simp add: df_random_sel_def F_max_def env_ex_def pair_AB_def pair_BA_def)

section \<open>Neighbour pairs\<close>

text \<open>
  C7. Every pair a batch synthesizes from has different source and neighbour rows and a
  strictly positive distance: the pairs at distance 0, the pairs of a row with itself
  among them, are filtered out before the ranking.
\<close>

theorem selected_pair_not_self:
  assumes "p \<in> set (df_random_sel e i (self_similarity_df_selected h cfg dataInput_min))"
  shows "datasetA p \<noteq> datasetB p \<and> 0 < EuclideanDistance p"
proof -
  from in_df_random_sel[OF assms] obtain n
    where "(p, n) \<in> set (self_similarity_df_selected h cfg dataInput_min)" by auto
  from in_selected[OF this] in_join[of p h dataInput_min dataInput_min None]
  show ?thesis
    by (auto simp: keyDistance_self)
qed

theorem selected_pair_not_self_witness:
  "pair_AB \<in> set (df_random_sel env_ex 0
       (self_similarity_df_selected hash_ex cfg_ex [row_A, row_B])) \<and>
   datasetA pair_AB \<noteq> datasetB pair_AB \<and> 0 < EuclideanDistance pair_AB"
  using selected_pair_not_self[of pair_AB env_ex 0 hash_ex cfg_ex "[row_A, row_B]"]
  by (simp add: selected_ex random_sel_ex)

section \<open>Interpolation of the features\<close>

lemma add_subtract_nth:
  "length (add_vector_fn b (subtract_vector_fn u a b)) = min (length a) (length b) \<and>
   (\<forall>n < min (length a) (length b).
      add_vector_fn b (subtract_vector_fn u a b) ! n = b ! n + u * (a ! n - b ! n))"
  by (auto simp: add_vector_fn_def subtract_vector_fn_def)

lemma in_batch:
  assumes "r \<in> set (batch e sel i)"
  shows "\<exists>j p. p \<in> set (df_random_sel e i sel) \<and> r = synthetic_row e i j p"
  using assms by (auto simp: batch_def Let_def dest: set_zip_rightD)

lemma selected_sides_minority:
  assumes "p \<in> set (df_random_sel e i (self_similarity_df_selected h cfg dmin))"
  shows "datasetA p \<in> set dmin \<and> datasetB p \<in> set dmin"
proof -
  from in_df_random_sel[OF assms] obtain n
    where "(p, n) \<in> set (self_similarity_df_selected h cfg dmin)" by auto
  from in_selected[OF this] in_join[of p h dmin dmin None]
  show ?thesis by simp
qed

lemma synth_ex:
  "synthetic_row env_ex i j pair_AB = syn_AB"
  "synthetic_row env_ex i j pair_BA = syn_BA"
  by (simp_all add: synthetic_row_def pick_def subtract_vector_fn_def add_vector_fn_def
        env_ex_def pair_AB_def pair_BA_def row_A_def row_B_def syn_AB_def syn_BA_def)

lemma batch_ex: "batch env_ex [(pair_AB, Suc 0), (pair_BA, Suc 0)] i = [syn_AB, syn_BA]"
  by (simp add: batch_def random_sel_ex synth_ex)

lemma length_batch: "length (batch e sel i) = length (df_random_sel e i sel)"
  by (simp add: batch_def Let_def)

lemma batch_nth:
  "j < length (df_random_sel e i sel) \<Longrightarrow>
     batch e sel i ! j = synthetic_row e i j (df_random_sel e i sel ! j)"
  by (simp add: batch_def Let_def)

text \<open>
  C2. A batch has one row for every selected pair, in the order of the pairs. The \<open>j\<close>-th
  row comes from the \<open>j\<close>-th selected pair, whose source \<open>datasetA\<close> and neighbour
  \<open>datasetB\<close> are minority rows, and from the \<open>j\<close>-th draw \<open>u\<close> of \<open>random.uniform(0, 1)\<close>
  in the batch: with \<open>a\<close> the feature vector of the source and \<open>b\<close> that of the
  neighbour, its feature vector is \<open>b + u * (a - b)\<close> entry by entry, and with the draw in
  \<open>[0, 1)\<close> so is \<open>u\<close>. Doubles are taken as reals.
\<close>

theorem synthetic_features_on_segment:
  assumes j: "j < length (df_random_sel e i (self_similarity_df_selected h cfg dataInput_min))"
    and u0: "0 \<le> random_uniform e i j" and u1: "random_uniform e i j < 1"
  shows "length (batch e (self_similarity_df_selected h cfg dataInput_min) i) =
           length (df_random_sel e i (self_similarity_df_selected h cfg dataInput_min)) \<and>
         datasetA (df_random_sel e i (self_similarity_df_selected h cfg dataInput_min) ! j)
           \<in> set dataInput_min \<and>
         datasetB (df_random_sel e i (self_similarity_df_selected h cfg dataInput_min) ! j)
           \<in> set dataInput_min \<and>
         0 \<le> random_uniform e i j \<and> random_uniform e i j < 1 \<and>
         length (features_for_model (batch e (self_similarity_df_selected h cfg dataInput_min) i ! j)) =
           min (length (features_for_model (datasetA
                  (df_random_sel e i (self_similarity_df_selected h cfg dataInput_min) ! j))))
               (length (features_for_model (datasetB
                  (df_random_sel e i (self_similarity_df_selected h cfg dataInput_min) ! j)))) \<and>
         (\<forall>n < length (features_for_model
                       (batch e (self_similarity_df_selected h cfg dataInput_min) i ! j)).
            features_for_model (batch e (self_similarity_df_selected h cfg dataInput_min) i ! j) ! n =
              features_for_model (datasetB
                (df_random_sel e i (self_similarity_df_selected h cfg dataInput_min) ! j)) ! n +
              random_uniform e i j *
                (features_for_model (datasetA
                   (df_random_sel e i (self_similarity_df_selected h cfg dataInput_min) ! j)) ! n -
                 features_for_model (datasetB
                   (df_random_sel e i (self_similarity_df_selected h cfg dataInput_min) ! j)) ! n))"
proof -
  let ?sel = "self_similarity_df_selected h cfg dataInput_min"
  let ?p = "df_random_sel e i ?sel ! j"
  let ?r = "batch e ?sel i ! j"
  from j have "?p \<in> set (df_random_sel e i ?sel)" by simp
  note ab = selected_sides_minority[OF this]
  have f: "features_for_model ?r =
      add_vector_fn (features_for_model (datasetB ?p))
        (subtract_vector_fn (random_uniform e i j) (features_for_model (datasetA ?p))
           (features_for_model (datasetB ?p)))"
    by (simp add: batch_nth[OF j] synthetic_row_def Let_def)
  from add_subtract_nth[of "features_for_model (datasetB ?p)" "random_uniform e i j"
        "features_for_model (datasetA ?p)"]
  have g: "length (features_for_model ?r) =
        min (length (features_for_model (datasetA ?p))) (length (features_for_model (datasetB ?p)))"
    and n: "\<forall>n < length (features_for_model ?r).
        features_for_model ?r ! n =
          features_for_model (datasetB ?p) ! n +
          random_uniform e i j *
            (features_for_model (datasetA ?p) ! n - features_for_model (datasetB ?p) ! n)"
    by (simp_all add: f)
  from length_batch ab u0 u1 g n show ?thesis
    by (intro conjI) simp_all
qed

theorem synthetic_features_on_segment_witness:
  "0 < length (df_random_sel env_ex 0 (self_similarity_df_selected hash_ex cfg_ex [row_A, row_B])) \<and>
   0 \<le> random_uniform env_ex 0 0 \<and> random_uniform env_ex 0 0 < 1 \<and>
   df_random_sel env_ex 0 (self_similarity_df_selected hash_ex cfg_ex [row_A, row_B]) ! 0 = pair_AB \<and>
   datasetA pair_AB \<in> set [row_A, row_B] \<and> datasetB pair_AB \<in> set [row_A, row_B] \<and>
   features_for_model (batch env_ex (self_similarity_df_selected hash_ex cfg_ex [row_A, row_B]) 0 ! 0)
     = [1, 0] \<and>
   features_for_model (batch env_ex (self_similarity_df_selected hash_ex cfg_ex [row_A, row_B]) 0 ! 0) ! 0 =
     features_for_model (datasetB pair_AB) ! 0 +
     random_uniform env_ex 0 0 *
       (features_for_model (datasetA pair_AB) ! 0 - features_for_model (datasetB pair_AB) ! 0)"
proof -
  let ?sel = "self_similarity_df_selected hash_ex cfg_ex [row_A, row_B]"
  have j: "0 < length (df_random_sel env_ex 0 ?sel)"
    by (simp add: selected_ex random_sel_ex)
  have u0: "0 \<le> random_uniform env_ex 0 0" and u1: "random_uniform env_ex 0 0 < 1"
    by (simp_all add: env_ex_def)
  have p: "df_random_sel env_ex 0 ?sel ! 0 = pair_AB"
    by (simp add: selected_ex random_sel_ex)
  have r: "features_for_model (batch env_ex ?sel 0 ! 0) = [1, 0]"
    by (simp add: selected_ex batch_ex syn_AB_def)
  then have l: "0 < length (features_for_model (batch env_ex ?sel 0 ! 0))" by simp
  note t = synthetic_features_on_segment[OF j u0 u1]
  from t have a: "datasetA (df_random_sel env_ex 0 ?sel ! 0) \<in> set [row_A, row_B]"
    and b: "datasetB (df_random_sel env_ex 0 ?sel ! 0) \<in> set [row_A, row_B]"
    by blast+
  from t l have v: "features_for_model (batch env_ex ?sel 0 ! 0) ! 0 =
     features_for_model (datasetB (df_random_sel env_ex 0 ?sel ! 0)) ! 0 +
     random_uniform env_ex 0 0 *
       (features_for_model (datasetA (df_random_sel env_ex 0 ?sel ! 0)) ! 0 -
        features_for_model (datasetB (df_random_sel env_ex 0 ?sel ! 0)) ! 0)"
    by blast
  from j u0 u1 p a[unfolded p] b[unfolded p] r v[unfolded p] show ?thesis
    by (intro conjI)
qed

lemma pairs_mix:
  "df_random_sel env_mix i [(pair_PQ, Suc 0), (pair_QP, Suc 0)] = [pair_PQ, pair_QP]"
  by (simp add: df_random_sel_def F_max_def env_mix_def env_ex_def pair_PQ_def pair_QP_def
        row_P_def row_Q_def)

lemma batch_mix:
  "batch env_mix [(pair_PQ, Suc 0), (pair_QP, Suc 0)] i =
     [\<lparr>label = Num 1, features_for_model = [0, 2], aux = [Str ''p1'', Str ''q2'']\<rparr>,
      \<lparr>label = Num 1, features_for_model = [0, 2], aux = [Str ''q1'', Str ''p2'']\<rparr>]"
  by (simp add: batch_def pairs_mix)
     (simp add: synthetic_row_def pick_def subtract_vector_fn_def add_vector_fn_def
        env_mix_def env_ex_def pair_PQ_def pair_QP_def row_P_def row_Q_def numeral_2_eq_2)

text \<open>
  C8. In batch \<open>i\<close> the side a column is copied from is \<open>random_choice e i c\<close>, drawn once
  for the column and the batch. A batch has one row for every selected pair; its \<open>j\<close>-th
  row has the auxiliary columns of the \<open>j\<close>-th pair, and takes its label and each
  auxiliary column \<open>c\<close> of the pair from the side drawn for that column, whatever \<open>j\<close>
  is.
\<close>

theorem auxiliary_side_per_column:
  assumes "j < length (df_random_sel e i sel)"
  shows "length (batch e sel i) = length (df_random_sel e i sel) \<and>
    label (batch e sel i ! j) =
      label (pick (random_choice e i Label) (df_random_sel e i sel ! j)) \<and>
    length (aux (batch e sel i ! j)) =
      min (length (aux (datasetA (df_random_sel e i sel ! j))))
          (length (aux (datasetB (df_random_sel e i sel ! j)))) \<and>
    (\<forall>c < min (length (aux (datasetA (df_random_sel e i sel ! j))))
              (length (aux (datasetB (df_random_sel e i sel ! j)))).
       aux (batch e sel i ! j) ! c =
         aux (pick (random_choice e i (Aux c)) (df_random_sel e i sel ! j)) ! c)"
  using assms
  by (auto simp: length_batch batch_nth synthetic_row_def Let_def pick_def split: side.splits)

theorem auxiliary_side_per_column_witness:
  "1 < length (df_random_sel env_mix 0 [(pair_PQ, Suc 0), (pair_QP, Suc 0)]) \<and>
   random_choice env_mix 0 (Aux 0) = SideA \<and> random_choice env_mix 0 (Aux 1) = SideB \<and>
   length (aux (batch env_mix [(pair_PQ, Suc 0), (pair_QP, Suc 0)] 0 ! 0)) = 2 \<and>
   length (aux (batch env_mix [(pair_PQ, Suc 0), (pair_QP, Suc 0)] 0 ! 1)) = 2 \<and>
   aux (batch env_mix [(pair_PQ, Suc 0), (pair_QP, Suc 0)] 0 ! 0) ! 0 = aux (datasetA pair_PQ) ! 0 \<and>
   aux (batch env_mix [(pair_PQ, Suc 0), (pair_QP, Suc 0)] 0 ! 0) ! 1 = aux (datasetB pair_PQ) ! 1 \<and>
   aux (batch env_mix [(pair_PQ, Suc 0), (pair_QP, Suc 0)] 0 ! 1) ! 0 = aux (datasetA pair_QP) ! 0 \<and>
   aux (batch env_mix [(pair_PQ, Suc 0), (pair_QP, Suc 0)] 0 ! 1) ! 1 = aux (datasetB pair_QP) ! 1"
proof -
  let ?sel = "[(pair_PQ, Suc 0), (pair_QP, Suc 0)]"
  have len: "0 < length (df_random_sel env_mix 0 ?sel)" "1 < length (df_random_sel env_mix 0 ?sel)"
    by (simp_all add: pairs_mix)
  have c: "random_choice env_mix 0 (Aux 0) = SideA" "random_choice env_mix 0 (Aux 1) = SideB"
    by (simp_all add: env_mix_def)
  have p: "df_random_sel env_mix 0 ?sel ! 0 = pair_PQ" "df_random_sel env_mix 0 ?sel ! 1 = pair_QP"
    by (simp_all add: pairs_mix)
  have two: "min (length (aux (datasetA pair_PQ))) (length (aux (datasetB pair_PQ))) = 2"
    "min (length (aux (datasetA pair_QP))) (length (aux (datasetB pair_QP))) = 2"
    by (simp_all add: pair_PQ_def pair_QP_def row_P_def row_Q_def)
  note t0 = auxiliary_side_per_column[OF len(1), unfolded p two]
  note t1 = auxiliary_side_per_column[OF len(2), unfolded p two]
  from t0 have a0: "length (aux (batch env_mix ?sel 0 ! 0)) = 2"
    and b0: "\<forall>c<2. aux (batch env_mix ?sel 0 ! 0) ! c =
                aux (pick (random_choice env_mix 0 (Aux c)) pair_PQ) ! c"
    by blast+
  from t1 have a1: "length (aux (batch env_mix ?sel 0 ! 1)) = 2"
    and b1: "\<forall>c<2. aux (batch env_mix ?sel 0 ! 1) ! c =
                aux (pick (random_choice env_mix 0 (Aux c)) pair_QP) ! c"
    by blast+
  from b0 have "aux (batch env_mix ?sel 0 ! 0) ! 0 = aux (pick (random_choice env_mix 0 (Aux 0)) pair_PQ) ! 0"
    "aux (batch env_mix ?sel 0 ! 0) ! 1 = aux (pick (random_choice env_mix 0 (Aux 1)) pair_PQ) ! 1"
    by simp_all
  moreover from b1 have "aux (batch env_mix ?sel 0 ! 1) ! 0 = aux (pick (random_choice env_mix 0 (Aux 0)) pair_QP) ! 0"
    "aux (batch env_mix ?sel 0 ! 1) ! 1 = aux (pick (random_choice env_mix 0 (Aux 1)) pair_QP) ! 1"
    by simp_all
  ultimately show ?thesis
    using len(2) c a0 a1 by (simp add: pick_def)
qed

section \<open>Runs without candidates, and the labels of the output\<close>

lemma row_number_over_pos: "(p, n) \<in> set (row_number_over ps) \<Longrightarrow> 1 \<le> n"
  by (auto simp: row_number_over_def Let_def dest!: set_zip_rightD simp del: upt_Suc)

lemma selected_empty_k:
  assumes "k cfg < 1"
  shows "self_similarity_df_selected h cfg dmin = []"
proof -
  have "\<not> int n \<le> k cfg" if "(p, n) \<in> set (row_number_over ps)" for p n ps
    using row_number_over_pos[OF that] assms by linarith
  then show ?thesis
    by (auto simp: self_similarity_df_selected_def Let_def filter_empty_conv)
qed

lemma row_number_over_Nil: "row_number_over [] = []"
  by (simp add: row_number_over_def)

lemma selected_empty_small:
  assumes "length dmin < 2"
  shows "self_similarity_df_selected h cfg dmin = []"
proof -
  have eq: "a = b" if "a \<in> set dmin" "b \<in> set dmin" for a b
  proof -
    from assms have "dmin = [] \<or> (\<exists>x. dmin = [x])"
      by (cases dmin; cases "tl dmin") auto
    with that show ?thesis by auto
  qed
  have "\<not> 0 < EuclideanDistance p" if "p \<in> set (approxSimilarityJoin h dmin dmin None)" for p
    using in_join[OF that] eq[of "datasetA p" "datasetB p"] by (simp add: keyDistance_self)
  then have "filter (\<lambda>p. 0 < EuclideanDistance p) (approxSimilarityJoin h dmin dmin None) = []"
    by (simp add: filter_empty_conv)
  then show ?thesis
    by (simp add: self_similarity_df_selected_def row_number_over_Nil)
qed

lemma batch_Nil: "batch e [] i = []"
  by (simp add: batch_def df_random_sel_def)

lemma smote_no_candidates:
  assumes "neighbor_index e cfg (filter (\<lambda>r. label r = positive_label cfg) df) = Some []"
    and "1 \<le> multiplier cfg"
  shows "smote e cfg df =
     Inr (reassemble e cfg [] (filter (\<lambda>r. label r = positive_label cfg) df)
            (filter (\<lambda>r. label r = negative_label cfg) df))"
proof -
  from assms(2) have "[0..<nat (multiplier cfg)] \<noteq> []" by simp
  then have "reduce_union (map (batch e []) [0..<nat (multiplier cfg)]) = Inr []"
    by (cases "[0..<nat (multiplier cfg)]")
      (simp_all add: reduce_union_def batch_Nil del: upt_eq_Nil_conv)
  with assms(1) show ?thesis
    by (simp add: smote_def Let_def)
qed

lemma smote_multiplier_lt_1: "multiplier cfg < 1 \<Longrightarrow> isl (smote e cfg df)"
  by (simp add: smote_def Let_def reduce_union_def split: option.splits)

lemma map_fst_with_row_number: "map fst (with_row_number xs) = xs"
  using fst_zip_upt[of xs 1] by (simp add: with_row_number_def)

lemma set_with_row_number: "fst ` set (with_row_number xs) = set xs"
  by (metis map_fst_with_row_number set_map)

lemma set_sort_by_rand: "set (sort_by_rand g xs) = set xs"
proof -
  have "map fst (zip xs (map g [0..<length xs])) = xs"
    by (simp add: map_fst_zip)
  then have "fst ` set (zip xs (map g [0..<length xs])) = set xs"
    by (metis set_map)
  then show ?thesis
    by (simp add: sort_by_rand_def)
qed

lemma length_sort_by_rand: "length (sort_by_rand g xs) = length xs"
  by (simp add: sort_by_rand_def)

lemma length_with_row_number: "length (with_row_number xs) = length xs"
  by (simp add: with_row_number_def del: upt_Suc)

lemma set_reassemble:
  "set (reassemble e cfg syn dmin dmaj) = set syn \<union> set dmin \<union> set dmaj"
  by (simp add: reassemble_def Let_def image_Un set_with_row_number set_sort_by_rand)

lemma length_reassemble:
  "length (reassemble e cfg syn dmin dmaj) = length syn + length dmin + length dmaj"
  by (simp add: reassemble_def Let_def length_with_row_number length_sort_by_rand)

lemma batch_label:
  assumes "r \<in> set (batch e (self_similarity_df_selected h cfg dmin) i)"
    and "\<forall>x \<in> set dmin. label x = l"
  shows "label r = l"
proof -
  from in_batch[OF assms(1)] obtain j p
    where p: "p \<in> set (df_random_sel e i (self_similarity_df_selected h cfg dmin))"
      and rp: "r = synthetic_row e i j p" by blast
  from selected_sides_minority[OF p] assms(2) show ?thesis
    by (simp add: rp synthetic_row_def Let_def pick_def split: side.splits)
qed

lemma smote_Inr:
  assumes "smote e cfg df = Inr out"
  shows "\<exists>h. brp_fit e (seed cfg) (bucketLength cfg)
                (filter (\<lambda>r. label r = positive_label cfg) df) = Some h \<and>
    1 \<le> multiplier cfg \<and>
    out = reassemble e cfg
       (concat (map (batch e (self_similarity_df_selected h cfg
                                 (filter (\<lambda>r. label r = positive_label cfg) df)))
           [0..<nat (multiplier cfg)]))
       (filter (\<lambda>r. label r = positive_label cfg) df)
       (filter (\<lambda>r. label r = negative_label cfg) df)"
proof (cases "multiplier cfg < 1")
  case True
  then have "isl (smote e cfg df)"
    by (rule smote_multiplier_lt_1)
  with assms show ?thesis by simp
next
  case False
  then have ne: "[0..<nat (multiplier cfg)] \<noteq> []" by simp
  have ru: "reduce_union (map f [0..<nat (multiplier cfg)]) =
            Inr (concat (map f [0..<nat (multiplier cfg)]))" for f
    using ne by (cases "[0..<nat (multiplier cfg)]")
      (simp_all add: reduce_union_def del: upt_eq_Nil_conv)
  from assms False show ?thesis
    by (auto simp: smote_def Let_def neighbor_index_def ru split: option.splits)
qed

subsection \<open>The concrete run, to the end\<close>

lemma labels_ex [simp]:
  "label row_A = Num 1" "label row_B = Num 1" "label row_C = Num 0" "label row_D = Num 1"
  "label row_X = Num 2"
  by (simp_all add: row_A_def row_B_def row_C_def row_D_def row_X_def)

lemma cfg_ex_fields [simp]:
  "positive_label cfg_ex = Num 1" "negative_label cfg_ex = Num 0"
  "k cfg_ex = 1" "multiplier cfg_ex = 1"
  by (simp_all add: cfg_ex_def)

lemma cfg_k0_fields [simp]:
  "positive_label cfg_k0 = Num 1" "negative_label cfg_k0 = Num 0"
  "k cfg_k0 = 0" "multiplier cfg_k0 = 1"
  by (simp_all add: cfg_k0_def cfg_ex_def)

lemma cfg_m0_fields [simp]:
  "positive_label cfg_m0 = Num 1" "negative_label cfg_m0 = Num 0"
  "k cfg_m0 = 1" "multiplier cfg_m0 = 0"
  by (simp_all add: cfg_m0_def cfg_ex_def)

lemma fit_ex: "brp_fit env_ex s b (x # xs) = Some hash_ex"
  by (simp add: env_ex_def)

lemma reassemble_ex:
  "reassemble env_ex cfg [a, b] [c, d] [m] = [b, m, c, d, a]"
  "reassemble env_ex cfg [] [c, d] [m] = [d, m, c]"
  "reassemble env_ex cfg [] [c] [m] = [c, m]"
  by (simp_all add: reassemble_def sort_by_rand_def with_row_number_def env_ex_def)

lemma smote_ex:
  "smote env_ex cfg_ex [row_A, row_B, row_C] = Inr [syn_BA, row_C, row_A, row_B, syn_AB]"
  by (simp add: smote_def neighbor_index_def fit_ex selected_ex batch_ex reduce_union_def
        reassemble_ex)

lemma smote_ex_X:
  "smote env_ex cfg_ex [row_A, row_B, row_C, row_X] =
     Inr [syn_BA, row_C, row_A, row_B, syn_AB]"
  by (simp add: smote_def neighbor_index_def fit_ex selected_ex batch_ex reduce_union_def
        reassemble_ex)

section \<open>Rows with other labels\<close>

text \<open>
  C10. \<open>smote\<close> reads its input only through the two filters on the label: it returns
  on a dataset what it returns on the rows labelled \<open>positive_label\<close> or
  \<open>negative_label\<close> alone, error or not, and every row it returns has one of the two
  labels.
\<close>

theorem other_labels_ignored:
  "smote e cfg df =
     smote e cfg
       (filter (\<lambda>r. label r = positive_label cfg \<or> label r = negative_label cfg) df) \<and>
   (\<forall>out. smote e cfg df = Inr out \<longrightarrow>
      (\<forall>r \<in> set out. label r = positive_label cfg \<or> label r = negative_label cfg))"
proof (intro conjI allI impI ballI)
  let ?two = "\<lambda>r. label r = positive_label cfg \<or> label r = negative_label cfg"
  have "filter (\<lambda>r. label r = positive_label cfg) (filter ?two df) =
        filter (\<lambda>r. label r = positive_label cfg) df"
    by (induction df) auto
  moreover have "filter (\<lambda>r. label r = negative_label cfg) (filter ?two df) =
        filter (\<lambda>r. label r = negative_label cfg) df"
    by (induction df) auto
  ultimately show "smote e cfg df = smote e cfg (filter ?two df)"
    by (simp only: smote_def)
next
  fix out r
  assume "smote e cfg df = Inr out" and r: "r \<in> set out"
  from smote_Inr[OF this(1)] obtain h where
    out: "out = reassemble e cfg
       (concat (map (batch e (self_similarity_df_selected h cfg
                                 (filter (\<lambda>r. label r = positive_label cfg) df)))
           [0..<nat (multiplier cfg)]))
       (filter (\<lambda>r. label r = positive_label cfg) df)
       (filter (\<lambda>r. label r = negative_label cfg) df)" by blast
  from r show "label r = positive_label cfg \<or> label r = negative_label cfg"
    unfolding out set_reassemble
    by (auto dest: batch_label[where l = "positive_label cfg"])
qed

theorem other_labels_ignored_witness:
  "label row_X \<noteq> positive_label cfg_ex \<and> label row_X \<noteq> negative_label cfg_ex \<and>
   smote env_ex cfg_ex [row_A, row_B, row_C, row_X] = smote env_ex cfg_ex [row_A, row_B, row_C] \<and>
   smote env_ex cfg_ex [row_A, row_B, row_C, row_X] = Inr [syn_BA, row_C, row_A, row_B, syn_AB] \<and>
   (label row_C = positive_label cfg_ex \<or> label row_C = negative_label cfg_ex)"
proof -
  have "row_C \<in> set [syn_BA, row_C, row_A, row_B, syn_AB]" by simp
  with other_labels_ignored[of env_ex cfg_ex "[row_A, row_B, row_C, row_X]"] smote_ex_X
  have "label row_C = positive_label cfg_ex \<or> label row_C = negative_label cfg_ex"
    by blast
  with other_labels_ignored[of env_ex cfg_ex "[row_A, row_B, row_C, row_X]"]
  show ?thesis
    by (simp add: smote_ex_X)
qed

section \<open>A minority of fewer than two rows\<close>

text \<open>
  C6, as the code has it. \<open>smote\<close> has no check on the size of the minority. With fewer
  than two minority rows no pair survives the filter on the distance, every batch is
  empty, and, where the fit succeeds and \<open>multiplier\<close> is at least 1, \<open>smote\<close> returns the
  minority and majority rows reassembled, without a synthetic row and without an error.
\<close>

theorem small_minority_returns:
  assumes "length (filter (\<lambda>r. label r = positive_label cfg) df) < 2"
    and "brp_fit e (seed cfg) (bucketLength cfg)
           (filter (\<lambda>r. label r = positive_label cfg) df) = Some h"
    and "1 \<le> multiplier cfg"
  shows "smote e cfg df =
     Inr (reassemble e cfg [] (filter (\<lambda>r. label r = positive_label cfg) df)
            (filter (\<lambda>r. label r = negative_label cfg) df))"
  using assms
  by (intro smote_no_candidates) (simp_all add: neighbor_index_def selected_empty_small)

theorem small_minority_returns_witness:
  "length (filter (\<lambda>r. label r = positive_label cfg_ex) [row_A, row_C]) < 2 \<and>
   brp_fit env_ex (seed cfg_ex) (bucketLength cfg_ex)
     (filter (\<lambda>r. label r = positive_label cfg_ex) [row_A, row_C]) = Some hash_ex \<and>
   1 \<le> multiplier cfg_ex \<and>
   smote env_ex cfg_ex [row_A, row_C] = Inr [row_A, row_C]"
proof -
  have 1: "length (filter (\<lambda>r. label r = positive_label cfg_ex) [row_A, row_C]) < 2"
    by simp
  have 2: "brp_fit env_ex (seed cfg_ex) (bucketLength cfg_ex)
     (filter (\<lambda>r. label r = positive_label cfg_ex) [row_A, row_C]) = Some hash_ex"
    by (simp add: fit_ex)
  have 3: "1 \<le> multiplier cfg_ex" by simp
  from small_minority_returns[OF 1 2 3] 1 2 3 show ?thesis
    by (simp add: reassemble_ex)
qed

text \<open>
  The sentence of the specification fails on one minority row and one majority row: \<open>smote\<close> returns
  the two rows.
\<close>

theorem single_minority_row_counterexample:
  "length (filter (\<lambda>r. label r = positive_label cfg_ex) [row_A, row_C]) = 1 \<and>
   smote env_ex cfg_ex [row_A, row_C] = Inr [row_A, row_C]"
  by (simp add: smote_def neighbor_index_def fit_ex selected_empty_small batch_Nil
        reduce_union_def reassemble_ex)

section \<open>What is checked of the configuration\<close>

lemma smote_multiplier_lt_1_result:
  assumes "multiplier cfg < 1"
  shows "smote e cfg df =
     (case brp_fit e (seed cfg) (bucketLength cfg)
             (filter (\<lambda>r. label r = positive_label cfg) df) of
        None \<Rightarrow> Inl FitError
      | Some h \<Rightarrow> Inl TypeError)"
  using assms
  by (simp add: smote_def Let_def neighbor_index_def reduce_union_def split: option.splits)

text \<open>
  C5, as the code has it. \<open>pre_smote_df_process\<close> raises \<open>ValueError\<close> before anything
  else when the target column does not have exactly two distinct values. \<open>smote\<close> checks
  neither \<open>k\<close> nor \<open>multiplier\<close>. With \<open>multiplier < 1\<close> it first fits the LSH model, and
  only when the fit has succeeded does it end in the \<open>TypeError\<close> that \<open>reduce\<close> raises on
  the empty list of batches (a failed fit ends it before). With \<open>k < 1\<close>, \<open>multiplier\<close>
  at least 1 and a successful fit it returns the minority and majority rows reassembled,
  without a synthetic row.
\<close>

theorem configuration_checks:
  "(length (remdups (map (\<lambda>r. r target_col) (df_rows raw))) \<noteq> 2 \<longrightarrow>
      pre_smote_df_process pipeline raw num_cols cat_cols target_col index_suffix =
        Inl ValueError) \<and>
   (multiplier cfg1 < 1 \<longrightarrow>
      smote e1 cfg1 df1 =
        (case brp_fit e1 (seed cfg1) (bucketLength cfg1)
                (filter (\<lambda>r. label r = positive_label cfg1) df1) of
           None \<Rightarrow> Inl FitError
         | Some h1 \<Rightarrow> Inl TypeError)) \<and>
   (k cfg < 1 \<and> 1 \<le> multiplier cfg \<and>
    brp_fit e (seed cfg) (bucketLength cfg)
      (filter (\<lambda>r. label r = positive_label cfg) df) = Some h \<longrightarrow>
      smote e cfg df =
        Inr (reassemble e cfg [] (filter (\<lambda>r. label r = positive_label cfg) df)
            (filter (\<lambda>r. label r = negative_label cfg) df)))"
proof (intro conjI impI)
  assume "length (remdups (map (\<lambda>r. r target_col) (df_rows raw))) \<noteq> 2"
  then show "pre_smote_df_process pipeline raw num_cols cat_cols target_col index_suffix =
      Inl ValueError"
    by (simp add: pre_smote_df_process_def)
next
  assume "multiplier cfg1 < 1"
  then show "smote e1 cfg1 df1 =
        (case brp_fit e1 (seed cfg1) (bucketLength cfg1)
                (filter (\<lambda>r. label r = positive_label cfg1) df1) of
           None \<Rightarrow> Inl FitError
         | Some h1 \<Rightarrow> Inl TypeError)"
    by (rule smote_multiplier_lt_1_result)
next
  assume "k cfg < 1 \<and> 1 \<le> multiplier cfg \<and>
    brp_fit e (seed cfg) (bucketLength cfg)
      (filter (\<lambda>r. label r = positive_label cfg) df) = Some h"
  then show "smote e cfg df =
        Inr (reassemble e cfg [] (filter (\<lambda>r. label r = positive_label cfg) df)
            (filter (\<lambda>r. label r = negative_label cfg) df))"
    by (intro smote_no_candidates) (simp_all add: neighbor_index_def selected_empty_k)
qed

lemma raw_ex_targets:
  "remdups (map (\<lambda>r. r ''y'') (df_rows raw_ex)) =
     [Scalar (Str ''p''), Scalar (Str ''q''), Scalar (Str ''r'')]"
  by (simp add: raw_ex_def)

theorem configuration_checks_witness:
  "length (remdups (map (\<lambda>r. r ''y'') (df_rows raw_ex))) \<noteq> 2 \<and>
   pre_smote_df_process pipeline_ex raw_ex [''x''] [] ''y'' ''_index'' = Inl ValueError \<and>
   multiplier cfg_m0 < 1 \<and>
   brp_fit env_ex (seed cfg_m0) (bucketLength cfg_m0)
      (filter (\<lambda>r. label r = positive_label cfg_m0) [row_A, row_B, row_C]) = Some hash_ex \<and>
   smote env_ex cfg_m0 [row_A, row_B, row_C] = Inl TypeError \<and>
   multiplier cfg_m0 < 1 \<and>
   brp_fit env_ex (seed cfg_m0) (bucketLength cfg_m0)
      (filter (\<lambda>r. label r = positive_label cfg_m0) [row_C]) = None \<and>
   smote env_ex cfg_m0 [row_C] = Inl FitError \<and>
   k cfg_k0 < 1 \<and> 1 \<le> multiplier cfg_k0 \<and>
   brp_fit env_ex (seed cfg_k0) (bucketLength cfg_k0)
      (filter (\<lambda>r. label r = positive_label cfg_k0) [row_A, row_B, row_C]) = Some hash_ex \<and>
   smote env_ex cfg_k0 [row_A, row_B, row_C] = Inr [row_B, row_C, row_A]"
proof -
  have 1: "length (remdups (map (\<lambda>r. r ''y'') (df_rows raw_ex))) \<noteq> 2"
    by (simp add: raw_ex_targets)
  have 2: "multiplier cfg_m0 < 1" by simp
  have f: "brp_fit env_ex (seed cfg_m0) (bucketLength cfg_m0)
      (filter (\<lambda>r. label r = positive_label cfg_m0) [row_A, row_B, row_C]) = Some hash_ex"
    by (simp add: fit_ex)
  have g: "brp_fit env_ex (seed cfg_m0) (bucketLength cfg_m0)
      (filter (\<lambda>r. label r = positive_label cfg_m0) [row_C]) = None"
    by (simp add: env_ex_def)
  have 3: "k cfg_k0 < 1 \<and> 1 \<le> multiplier cfg_k0 \<and>
    brp_fit env_ex (seed cfg_k0) (bucketLength cfg_k0)
      (filter (\<lambda>r. label r = positive_label cfg_k0) [row_A, row_B, row_C]) = Some hash_ex"
    by (simp add: fit_ex)
  note t = configuration_checks[where target_col = "''y''" and raw = raw_ex
      and pipeline = pipeline_ex and num_cols = "[''x'']" and cat_cols = "[]"
      and index_suffix = "''_index''" and ?e1.0 = env_ex and ?cfg1.0 = cfg_m0
      and cfg = cfg_k0 and e = env_ex and df = "[row_A, row_B, row_C]" and h = hash_ex]
  from t[where ?df1.0 = "[row_A, row_B, row_C]"] 1 2 3
  have a: "pre_smote_df_process pipeline_ex raw_ex [''x''] [] ''y'' ''_index'' = Inl ValueError"
    and b: "smote env_ex cfg_m0 [row_A, row_B, row_C] = Inl TypeError"
    and c: "smote env_ex cfg_k0 [row_A, row_B, row_C] = Inr [row_B, row_C, row_A]"
    by (simp_all add: fit_ex reassemble_ex)
  from t[where ?df1.0 = "[row_C]"] 2
  have d: "smote env_ex cfg_m0 [row_C] = Inl FitError"
    by (simp add: env_ex_def)
  from 1 2 3 f g a b c d show ?thesis
    by (intro conjI) simp_all
qed

text \<open>
  The vectorization on a frame with two target values: the target \<open>y\<close> ends as the column
  \<open>label\<close>; a target that is also listed as categorical ends in \<open>AnalysisException\<close>; a
  target that is already named \<open>label\<close> is dropped with the last step.
\<close>

lemma pre_smote_columns_ex:
  "map_sum id df_columns (pre_smote_df_process pipeline_ex (raw_two ''y'') [''x''] [] ''y'' ''_index'')
     = Inr [''features_for_model'', ''label'']"
  "pre_smote_df_process pipeline_ex (raw_two ''y'') [''x''] [''y''] ''y'' ''_index''
     = Inl AnalysisException"
  "map_sum id df_columns
     (pre_smote_df_process pipeline_ex (raw_two ''label'') [''x''] [] ''label'' ''_index'')
     = Inr [''features_for_model'']"
  by (simp_all add: pre_smote_df_process_def raw_two_def pipeline_ex_def withColumn_def
        df_select_def df_drop_def Let_def)

text \<open>
  The sentence of the specification fails at \<open>k = 0\<close>: on the two minority rows and the majority row
  \<open>smote\<close> returns the three rows, and no error.
\<close>

theorem k_zero_counterexample:
  "k cfg_k0 < 1 \<and> smote env_ex cfg_k0 [row_A, row_B, row_C] = Inr [row_B, row_C, row_A]"
  by (simp add: smote_def neighbor_index_def fit_ex selected_empty_k batch_Nil
        reduce_union_def reassemble_ex)

section \<open>The order of the output\<close>

lemma insort_key_past:
  "\<forall>p \<in> set ps. f p < f x \<Longrightarrow> insort_key f x (ps @ zs) = ps @ insort_key f x zs"
  by (induction ps) auto

lemma zip_upt_Cons:
  "zip (x # xs) [n..<n + length (x # xs)] = (x, n) # zip xs [Suc n..<Suc n + length xs]"
  by (simp add: upt_conv_Cons del: upt_Suc)

lemma insort_numbered_head:
  "insort_key snd (x, n) (zip xs [Suc n..<Suc n + length xs]) =
     (x, n) # zip xs [Suc n..<Suc n + length xs]"
proof (cases xs)
  case Nil
  then show ?thesis by simp
next
  case (Cons y ys)
  have "zip (y # ys) [Suc n..<Suc n + length (y # ys)] =
      (y, Suc n) # zip ys [Suc (Suc n)..<Suc (Suc n) + length ys]"
    by (rule zip_upt_Cons)
  then show ?thesis unfolding Cons by simp
qed

lemma foldr_insort_numbered:
  "\<forall>p \<in> set ps. snd p < n \<Longrightarrow>
   foldr (insort_key snd) (zip xs [n..<n + length xs]) (ps @ zip ys [n..<n + length ys]) =
     ps @ splice (zip xs [n..<n + length xs]) (zip ys [n..<n + length ys])"
proof (induction xs arbitrary: n ps ys)
  case Nil
  then show ?case by simp
next
  case (Cons x xs)
  define A where "A = zip xs [Suc n..<Suc n + length xs]"
  have zA: "zip (x # xs) [n..<n + length (x # xs)] = (x, n) # A"
    unfolding A_def by (rule zip_upt_Cons)
  have hd: "insort_key snd (x, n) A = (x, n) # A"
    unfolding A_def by (rule insort_numbered_head)
  have less: "\<forall>p \<in> set ps. snd p < snd (x, n)" using Cons.prems by simp
  show ?case
  proof (cases ys)
    case Nil
    from Cons.prems have "\<forall>p \<in> set ps. snd p < Suc n" by auto
    from Cons.IH[OF this, of "[]"]
    have "foldr (insort_key snd) A ps = ps @ A" unfolding A_def by simp
    then show ?thesis
      unfolding zA Nil
      using insort_key_past[OF less, of A] by (simp add: hd)
  next
    case (Cons y ys')
    define B where "B = zip ys' [Suc n..<Suc n + length ys']"
    have zB: "zip (y # ys') [n..<n + length (y # ys')] = (y, n) # B"
      unfolding B_def by (rule zip_upt_Cons)
    from Cons.prems have "\<forall>p \<in> set (ps @ [(y, n)]). snd p < Suc n" by auto
    from Cons.IH[OF this, of ys']
    have "foldr (insort_key snd) A (ps @ (y, n) # B) = ps @ (y, n) # splice A B"
      unfolding A_def B_def by simp
    then show ?thesis
      unfolding zA Cons zB
      using insort_key_past[OF less, of "(y, n) # splice A B"] by simp
  qed
qed

lemma map_snd_zip_upt: "map snd (zip ys [n..<n + length ys]) = [n..<n + length ys]"
  by (simp add: map_snd_zip)

lemma sort_key_numbered:
  "sort_key snd (zip xs [n..<n + length xs] @ zip ys [n..<n + length ys]) =
     splice (zip xs [n..<n + length xs]) (zip ys [n..<n + length ys])"
proof -
  have "sorted (map snd (zip ys [n..<n + length ys]))"
    by (simp only: map_snd_zip_upt sorted_upt)
  then have "sort_key snd (zip ys [n..<n + length ys]) = zip ys [n..<n + length ys]"
    by (rule sort_key_id_if_sorted)
  then have "sort_key snd (zip xs [n..<n + length xs] @ zip ys [n..<n + length ys]) =
      foldr (insort_key snd) (zip xs [n..<n + length xs]) ([] @ zip ys [n..<n + length ys])"
    by (simp add: sort_key_def)
  also have "\<dots> = [] @ splice (zip xs [n..<n + length xs]) (zip ys [n..<n + length ys])"
    by (rule foldr_insort_numbered) simp
  finally show ?thesis by simp
qed

lemma map_splice: "map f (splice xs ys) = splice (map f xs) (map f ys)"
  by (induction xs ys rule: splice.induct) simp_all

lemma with_row_number_alt: "with_row_number xs = zip xs [1..<1 + length xs]"
  by (simp add: with_row_number_def del: upt_Suc)

lemma reassemble_splice:
  "reassemble e cfg syn dmin dmaj =
     splice (sort_by_rand (F_rand_seeded e (seed cfg)) (syn @ dmin)) dmaj"
proof -
  let ?D = "sort_by_rand (F_rand_seeded e (seed cfg)) (syn @ dmin)"
  have "reassemble e cfg syn dmin dmaj =
      map fst (sort_key snd (zip ?D [1..<1 + length ?D] @ zip dmaj [1..<1 + length dmaj]))"
    by (simp only: reassemble_def Let_def with_row_number_alt)
  also have "\<dots> = splice (map fst (zip ?D [1..<1 + length ?D])) (map fst (zip dmaj [1..<1 + length dmaj]))"
    by (simp only: sort_key_numbered map_splice)
  also have "\<dots> = splice ?D dmaj"
    by (simp only: fst_zip_upt)
  finally show ?thesis .
qed

lemma filter_splice_right:
  "\<forall>x \<in> set xs. \<not> P x \<Longrightarrow> \<forall>y \<in> set ys. P y \<Longrightarrow>
     filter P (splice xs ys) = ys \<and> filter P (splice ys xs) = ys"
proof (induction xs arbitrary: ys)
  case Nil
  then show ?case by (simp add: filter_id_conv)
next
  case (Cons x xs)
  show ?case
  proof (cases ys)
    case Nil
    with Cons.prems show ?thesis by (simp add: filter_empty_conv)
  next
    case (Cons y ys')
    with Cons.prems Cons.IH[of ys'] show ?thesis by simp
  qed
qed

text \<open>
  C4, as the code has it. The minority-derived rows, in their shuffled order, are
  numbered from 1, and so are the majority rows, in their original order; the union is
  sorted by that number. So the output takes a minority-derived row and a majority row
  in turn until one group is used up, and then the rest of the other: the two groups are
  interleaved, not one after the other. Each keeps its own order; with two different
  labels the majority rows of the output, read off in order, are the majority rows of
  the input. (Of two rows with the same number the sort, being stable, puts the
  minority-derived one first.)
\<close>

theorem output_alternates_groups:
  assumes "smote e cfg df = Inr out"
  shows "\<exists>h. brp_fit e (seed cfg) (bucketLength cfg)
                (filter (\<lambda>r. label r = positive_label cfg) df) = Some h \<and>
     out = splice
       (sort_by_rand (F_rand_seeded e (seed cfg))
          (concat (map (batch e (self_similarity_df_selected h cfg
                                   (filter (\<lambda>r. label r = positive_label cfg) df)))
                    [0..<nat (multiplier cfg)]) @
           filter (\<lambda>r. label r = positive_label cfg) df))
       (filter (\<lambda>r. label r = negative_label cfg) df) \<and>
     (positive_label cfg \<noteq> negative_label cfg \<longrightarrow>
        filter (\<lambda>r. label r = negative_label cfg) out =
        filter (\<lambda>r. label r = negative_label cfg) df)"
proof -
  let ?min = "filter (\<lambda>r. label r = positive_label cfg) df"
  let ?maj = "filter (\<lambda>r. label r = negative_label cfg) df"
  from smote_Inr[OF assms] obtain h where
    h: "brp_fit e (seed cfg) (bucketLength cfg) ?min = Some h" and
    out: "out = reassemble e cfg
       (concat (map (batch e (self_similarity_df_selected h cfg ?min))
           [0..<nat (multiplier cfg)])) ?min ?maj" by blast
  let ?syn = "concat (map (batch e (self_similarity_df_selected h cfg ?min))
           [0..<nat (multiplier cfg)])"
  let ?D = "sort_by_rand (F_rand_seeded e (seed cfg)) (?syn @ ?min)"
  have sp: "out = splice ?D ?maj"
    by (simp only: out reassemble_splice)
  have "filter (\<lambda>r. label r = negative_label cfg) out = ?maj"
    if ne: "positive_label cfg \<noteq> negative_label cfg"
  proof -
    have 1: "\<forall>x \<in> set ?D. \<not> label x = negative_label cfg"
    proof
      fix x assume "x \<in> set ?D"
      then have "x \<in> set ?syn \<or> x \<in> set ?min"
        by (simp only: set_sort_by_rand set_append Un_iff)
      then have "label x = positive_label cfg"
      proof
        assume "x \<in> set ?syn"
        then obtain i where "x \<in> set (batch e (self_similarity_df_selected h cfg ?min) i)"
          by auto
        from batch_label[OF this, of "positive_label cfg"] show ?thesis by simp
      next
        assume "x \<in> set ?min"
        then show ?thesis by simp
      qed
      with ne show "\<not> label x = negative_label cfg" by simp
    qed
    have 2: "\<forall>y \<in> set ?maj. label y = negative_label cfg" by simp
    from filter_splice_right[of ?D "\<lambda>r. label r = negative_label cfg" ?maj, OF 1 2]
    show ?thesis by (simp only: sp)
  qed
  then have "positive_label cfg \<noteq> negative_label cfg \<longrightarrow>
      filter (\<lambda>r. label r = negative_label cfg) out = ?maj" by (rule impI)
  with h sp show ?thesis
    by (intro exI[of _ h] conjI)
qed

theorem output_alternates_groups_witness:
  "smote env_ex cfg_ex [row_A, row_B, row_C] = Inr [syn_BA, row_C, row_A, row_B, syn_AB] \<and>
   positive_label cfg_ex \<noteq> negative_label cfg_ex \<and>
   filter (\<lambda>r. label r = negative_label cfg_ex) [syn_BA, row_C, row_A, row_B, syn_AB] =
   filter (\<lambda>r. label r = negative_label cfg_ex) [row_A, row_B, row_C] \<and>
   (\<exists>h. brp_fit env_ex (seed cfg_ex) (bucketLength cfg_ex)
                (filter (\<lambda>r. label r = positive_label cfg_ex) [row_A, row_B, row_C]) = Some h \<and>
     [syn_BA, row_C, row_A, row_B, syn_AB] = splice
       (sort_by_rand (F_rand_seeded env_ex (seed cfg_ex))
          (concat (map (batch env_ex (self_similarity_df_selected h cfg_ex
                           (filter (\<lambda>r. label r = positive_label cfg_ex) [row_A, row_B, row_C])))
                    [0..<nat (multiplier cfg_ex)]) @
           filter (\<lambda>r. label r = positive_label cfg_ex) [row_A, row_B, row_C]))
       (filter (\<lambda>r. label r = negative_label cfg_ex) [row_A, row_B, row_C]))"
proof -
  have ne: "positive_label cfg_ex \<noteq> negative_label cfg_ex" by simp
  from output_alternates_groups[OF smote_ex] obtain h where
    h: "brp_fit env_ex (seed cfg_ex) (bucketLength cfg_ex)
                (filter (\<lambda>r. label r = positive_label cfg_ex) [row_A, row_B, row_C]) = Some h"
    and sp: "[syn_BA, row_C, row_A, row_B, syn_AB] = splice
       (sort_by_rand (F_rand_seeded env_ex (seed cfg_ex))
          (concat (map (batch env_ex (self_similarity_df_selected h cfg_ex
                           (filter (\<lambda>r. label r = positive_label cfg_ex) [row_A, row_B, row_C])))
                    [0..<nat (multiplier cfg_ex)]) @
           filter (\<lambda>r. label r = positive_label cfg_ex) [row_A, row_B, row_C]))
       (filter (\<lambda>r. label r = negative_label cfg_ex) [row_A, row_B, row_C])"
    and f: "positive_label cfg_ex \<noteq> negative_label cfg_ex \<longrightarrow>
        filter (\<lambda>r. label r = negative_label cfg_ex) [syn_BA, row_C, row_A, row_B, syn_AB] =
        filter (\<lambda>r. label r = negative_label cfg_ex) [row_A, row_B, row_C]"
    by (elim exE conjE)
  from f ne have f': "filter (\<lambda>r. label r = negative_label cfg_ex) [syn_BA, row_C, row_A, row_B, syn_AB] =
        filter (\<lambda>r. label r = negative_label cfg_ex) [row_A, row_B, row_C]" by (rule mp)
  from h sp have "\<exists>h. brp_fit env_ex (seed cfg_ex) (bucketLength cfg_ex)
                (filter (\<lambda>r. label r = positive_label cfg_ex) [row_A, row_B, row_C]) = Some h \<and>
     [syn_BA, row_C, row_A, row_B, syn_AB] = splice
       (sort_by_rand (F_rand_seeded env_ex (seed cfg_ex))
          (concat (map (batch env_ex (self_similarity_df_selected h cfg_ex
                           (filter (\<lambda>r. label r = positive_label cfg_ex) [row_A, row_B, row_C])))
                    [0..<nat (multiplier cfg_ex)]) @
           filter (\<lambda>r. label r = positive_label cfg_ex) [row_A, row_B, row_C]))
       (filter (\<lambda>r. label r = negative_label cfg_ex) [row_A, row_B, row_C])"
    by (intro exI[of _ h] conjI)
  with smote_ex ne f' show ?thesis
    by (intro conjI)
qed

text \<open>
  The sentence of the specification fails on the concrete run: the majority row \<open>C\<close> is the second row
  of the output, before the minority rows \<open>A\<close> and \<open>B\<close> and one of the synthetic rows.
\<close>

theorem majority_row_between_counterexample:
  "smote env_ex cfg_ex [row_A, row_B, row_C] = Inr [syn_BA, row_C, row_A, row_B, syn_AB] \<and>
   label row_C = negative_label cfg_ex \<and> label row_A = positive_label cfg_ex \<and>
   label row_B = positive_label cfg_ex \<and> label syn_AB = positive_label cfg_ex"
  by (simp add: smote_ex syn_AB_def)

section \<open>The number of rows\<close>

lemma fold_max_in: "fold max ys (x::real) \<in> set (x # ys)"
  by (induction ys arbitrary: x) (auto simp: max_def)

lemma F_max_in: "xs \<noteq> [] \<Longrightarrow> \<exists>m. F_max xs = Some m \<and> m \<in> set xs"
  using fold_max_in by (cases xs) (auto simp: F_max_def)

lemma length_df_random_sel:
  assumes d: "distinct (map (F_rand e i) [0..<length sel])"
  shows "length (df_random_sel e i sel) = card ((\<lambda>q. datasetA (fst q)) ` set sel)"
proof -
  define wr where "wr = zip sel (map (F_rand e i) [0..<length sel])"
  define key where "key = (\<lambda>x :: (pair \<times> nat) \<times> real. datasetA (fst (fst x)))"
  define part where "part = (\<lambda>a. filter (\<lambda>x. key x = a) wr)"
  define P where "P = (\<lambda>x. Some (snd x) = F_max (map snd (part (key x))))"
  have sel: "df_random_sel e i sel = map (fst \<circ> fst) (filter P wr)"
    unfolding df_random_sel_def Let_def wr_def P_def part_def key_def
    by (simp add: case_prod_unfold)
  have fst_wr: "map fst wr = sel" and snd_wr: "map snd wr = map (F_rand e i) [0..<length sel]"
    by (simp_all add: wr_def)
  from d snd_wr have dsnd: "distinct (map snd wr)" by simp
  then have dwr: "distinct wr" and inj: "inj_on snd (set wr)"
    by (simp_all add: distinct_map)
  have injF: "inj_on key (set (filter P wr))"
  proof (rule inj_onI)
    fix x y assume x: "x \<in> set (filter P wr)" and y: "y \<in> set (filter P wr)" and k: "key x = key y"
    then have "Some (snd x) = Some (snd y)" by (simp add: P_def)
    with x y inj show "x = y" by (auto dest: inj_onD)
  qed
  have img: "key ` set (filter P wr) = key ` set wr"
  proof
    show "key ` set (filter P wr) \<subseteq> key ` set wr" by auto
    show "key ` set wr \<subseteq> key ` set (filter P wr)"
    proof
      fix a assume "a \<in> key ` set wr"
      then obtain x where x: "x \<in> set wr" "key x = a" by auto
      then have "map snd (part a) \<noteq> []" by (auto simp: part_def filter_empty_conv)
      from F_max_in[OF this] obtain m where m: "F_max (map snd (part a)) = Some m" "m \<in> set (map snd (part a))"
        by blast
      then obtain y where y: "y \<in> set (part a)" "snd y = m" by auto
      then have "y \<in> set wr" "key y = a" by (auto simp: part_def)
      with m y have "y \<in> set (filter P wr)" by (simp add: P_def)
      with \<open>key y = a\<close> show "a \<in> key ` set (filter P wr)" by blast
    qed
  qed
  have "length (df_random_sel e i sel) = length (map key (filter P wr))"
    by (simp add: sel)
  also have "\<dots> = card (set (map key (filter P wr)))"
    using dwr injF by (intro distinct_card[symmetric]) (simp add: distinct_map)
  also have "\<dots> = card (key ` set wr)"
    using img by (simp only: set_map)
  also have "key ` set wr = (\<lambda>q. datasetA (fst q)) ` set sel"
  proof -
    have "key ` set wr = (\<lambda>q. datasetA (fst q)) ` fst ` set wr"
      by (simp add: key_def image_image)
    also have "fst ` set wr = set sel" using fst_wr by (metis set_map)
    finally show ?thesis .
  qed
  finally show ?thesis .
qed

lemma join_sources:
  "datasetA ` set (filter (\<lambda>p. 0 < EuclideanDistance p) (approxSimilarityJoin h dmin dmin None)) =
     {a \<in> set dmin. \<exists>b \<in> set dmin. collide (h (features_for_model a)) (h (features_for_model b)) \<and>
        0 < keyDistance (features_for_model a) (features_for_model b)}"
  by (auto simp: approxSimilarityJoin_def image_iff) force+

lemma row_number_over_first:
  assumes "p \<in> set ps"
  shows "\<exists>q. (q, 1) \<in> set (row_number_over ps) \<and> datasetA q = datasetA p"
proof -
  define part where "part = sort_key EuclideanDistance (filter (\<lambda>q. datasetA q = datasetA p) ps)"
  from assms have "set part \<noteq> {}" by (auto simp: part_def)
  then obtain q qs where pq: "part = q # qs" by (cases part) auto
  then have "q \<in> set part" by simp
  then have dq: "datasetA q = datasetA p" by (simp add: part_def)
  have "(q, 1) \<in> set (zip part [1..<Suc (length part)])"
    unfolding pq by (simp add: upt_conv_Cons del: upt_Suc)
  moreover have "datasetA p \<in> set (remdups (map datasetA ps))" using assms by simp
  ultimately have "(q, 1) \<in> set (row_number_over ps)"
    unfolding row_number_over_def Let_def part_def by (auto simp del: upt_Suc)
  with dq show ?thesis by blast
qed

lemma selected_sources:
  assumes "1 \<le> k cfg"
  shows "(\<lambda>q. datasetA (fst q)) ` set (self_similarity_df_selected h cfg dmin) =
     datasetA ` set (filter (\<lambda>p. 0 < EuclideanDistance p) (approxSimilarityJoin h dmin dmin None))"
    (is "?L = datasetA ` set ?J")
proof
  show "?L \<subseteq> datasetA ` set ?J"
    using in_selected[of _ _ h cfg dmin] by (auto simp: image_iff)
  show "datasetA ` set ?J \<subseteq> ?L"
  proof
    fix a assume "a \<in> datasetA ` set ?J"
    then obtain p where "p \<in> set ?J" "datasetA p = a" by auto
    from row_number_over_first[OF this(1)] this(2) obtain q
      where q: "(q, 1) \<in> set (row_number_over ?J)" "datasetA q = a" by auto
    with assms have "(q, 1) \<in> set (self_similarity_df_selected h cfg dmin)"
      by (simp add: self_similarity_df_selected_def Let_def)
    with q(2) show "a \<in> ?L" by force
  qed
qed


lemma length_concat_const:
  "\<forall>x \<in> set xs. length (f x) = c \<Longrightarrow> length (concat (map f xs)) = length xs * c"
  by (induction xs) simp_all

lemma batch_size_one_per_row:
  assumes k1: "1 \<le> k cfg"
    and dist: "distinct dmin"
    and cand: "\<forall>a \<in> set dmin. \<exists>b \<in> set dmin.
        collide (h (features_for_model a)) (h (features_for_model b)) \<and>
        0 < keyDistance (features_for_model a) (features_for_model b)"
    and noties: "distinct (map (F_rand e i) [0..<length (self_similarity_df_selected h cfg dmin)])"
  shows "length (batch e (self_similarity_df_selected h cfg dmin) i) = length dmin"
proof -
  have "length (batch e (self_similarity_df_selected h cfg dmin) i) =
      card ((\<lambda>q. datasetA (fst q)) ` set (self_similarity_df_selected h cfg dmin))"
    by (simp only: length_batch length_df_random_sel[OF noties])
  also have "(\<lambda>q. datasetA (fst q)) ` set (self_similarity_df_selected h cfg dmin) = set dmin"
    unfolding selected_sources[OF k1] join_sources using cand by blast
  also have "card (set dmin) = length dmin"
    using dist by (rule distinct_card)
  finally show ?thesis .
qed

text \<open>
  C1, as the code has it. A batch holds one row for every selected pair, and a minority
  row without a candidate (no colliding minority row at a positive distance) gets no
  pair, so the batches can be smaller than the minority. When the fit succeeds, \<open>k\<close> and
  \<open>multiplier\<close> are at least 1, the minority rows are pairwise different, each of them
  collides with a minority row at a positive distance, and the numbers drawn for the
  candidate rows of a batch are pairwise different, every batch has as many rows as the
  minority, and the output has \<open>|minority| * (multiplier + 1) + |majority|\<close> rows.
\<close>

theorem smote_row_count:
  assumes fit: "brp_fit e (seed cfg) (bucketLength cfg)
                  (filter (\<lambda>r. label r = positive_label cfg) df) = Some h"
    and k1: "1 \<le> k cfg" and m1: "1 \<le> multiplier cfg"
    and dist: "distinct (filter (\<lambda>r. label r = positive_label cfg) df)"
    and cand: "\<forall>a \<in> set (filter (\<lambda>r. label r = positive_label cfg) df).
        \<exists>b \<in> set (filter (\<lambda>r. label r = positive_label cfg) df).
          collide (h (features_for_model a)) (h (features_for_model b)) \<and>
          0 < keyDistance (features_for_model a) (features_for_model b)"
    and noties: "\<forall>i < nat (multiplier cfg).
        distinct (map (F_rand e i)
          [0..<length (self_similarity_df_selected h cfg
                         (filter (\<lambda>r. label r = positive_label cfg) df))])"
  shows "\<exists>out. smote e cfg df = Inr out \<and>
     length out =
       length (filter (\<lambda>r. label r = positive_label cfg) df) * (nat (multiplier cfg) + 1) +
       length (filter (\<lambda>r. label r = negative_label cfg) df)"
proof -
  let ?min = "filter (\<lambda>r. label r = positive_label cfg) df"
  let ?maj = "filter (\<lambda>r. label r = negative_label cfg) df"
  let ?sel = "self_similarity_df_selected h cfg ?min"
  let ?syn = "concat (map (batch e ?sel) [0..<nat (multiplier cfg)])"
  from m1 have ne: "[0..<nat (multiplier cfg)] \<noteq> []" by simp
  have ru: "reduce_union (map (batch e ?sel) [0..<nat (multiplier cfg)]) = Inr ?syn"
    using ne by (cases "[0..<nat (multiplier cfg)]")
      (simp_all add: reduce_union_def del: upt_eq_Nil_conv)
  have out: "smote e cfg df = Inr (reassemble e cfg ?syn ?min ?maj)"
    by (simp add: smote_def Let_def neighbor_index_def fit ru)
  have "\<forall>i \<in> set [0..<nat (multiplier cfg)]. length (batch e ?sel i) = length ?min"
  proof
    fix i assume "i \<in> set [0..<nat (multiplier cfg)]"
    then have "i < nat (multiplier cfg)" by simp
    with noties have "distinct (map (F_rand e i) [0..<length ?sel])" by blast
    from batch_size_one_per_row[OF k1 dist cand this]
    show "length (batch e ?sel i) = length ?min" .
  qed
  then have "length ?syn = length [0..<nat (multiplier cfg)] * length ?min"
    by (rule length_concat_const)
  then have "length (reassemble e cfg ?syn ?min ?maj) =
      length ?min * (nat (multiplier cfg) + 1) + length ?maj"
    by (simp add: length_reassemble algebra_simps)
  with out show ?thesis by blast
qed

theorem smote_row_count_witness:
  "brp_fit env_ex (seed cfg_ex) (bucketLength cfg_ex)
     (filter (\<lambda>r. label r = positive_label cfg_ex) [row_A, row_B, row_C]) = Some hash_ex \<and>
   1 \<le> k cfg_ex \<and> 1 \<le> multiplier cfg_ex \<and>
   distinct (filter (\<lambda>r. label r = positive_label cfg_ex) [row_A, row_B, row_C]) \<and>
   collide (hash_ex (features_for_model row_A)) (hash_ex (features_for_model row_B)) \<and>
   0 < keyDistance (features_for_model row_A) (features_for_model row_B) \<and>
   0 < keyDistance (features_for_model row_B) (features_for_model row_A) \<and>
   distinct (map (F_rand env_ex 0) [0..<2]) \<and>
   (\<exists>out. smote env_ex cfg_ex [row_A, row_B, row_C] = Inr out \<and> length out = 5)"
proof -
  let ?df = "[row_A, row_B, row_C]"
  let ?min = "filter (\<lambda>r. label r = positive_label cfg_ex) ?df"
  have min: "?min = [row_A, row_B]" by simp
  have 1: "brp_fit env_ex (seed cfg_ex) (bucketLength cfg_ex) ?min = Some hash_ex"
    by (simp add: fit_ex)
  have 2: "1 \<le> k cfg_ex" and 3: "1 \<le> multiplier cfg_ex" by simp_all
  have 4: "distinct ?min" by simp
  have d: "0 < keyDistance (features_for_model row_A) (features_for_model row_B)"
    "0 < keyDistance (features_for_model row_B) (features_for_model row_A)"
    "collide (hash_ex (features_for_model row_A)) (hash_ex (features_for_model row_B))"
    "collide (hash_ex (features_for_model row_B)) (hash_ex (features_for_model row_A))"
    by (simp_all add: keyDistance_def collide_def hash_ex_def row_A_def row_B_def)
  have 5: "\<forall>a \<in> set ?min. \<exists>b \<in> set ?min.
          collide (hash_ex (features_for_model a)) (hash_ex (features_for_model b)) \<and>
          0 < keyDistance (features_for_model a) (features_for_model b)"
    unfolding min using d by simp
  have draws: "distinct (map (F_rand env_ex 0) [0..<2])"
    by (simp add: env_ex_def numeral_2_eq_2)
  have 6: "\<forall>i < nat (multiplier cfg_ex).
        distinct (map (F_rand env_ex i) [0..<length (self_similarity_df_selected hash_ex cfg_ex ?min)])"
    unfolding min selected_ex by (simp add: env_ex_def)
  from smote_row_count[OF 1 2 3 4 5 6] obtain out where
    o: "smote env_ex cfg_ex ?df = Inr out"
       "length out = length ?min * (nat (multiplier cfg_ex) + 1) +
          length (filter (\<lambda>r. label r = negative_label cfg_ex) ?df)"
    by blast
  have "length ?min * (nat (multiplier cfg_ex) + 1) +
          length (filter (\<lambda>r. label r = negative_label cfg_ex) ?df) = 5"
    by simp
  with o(2) have "length out = 5" by (rule trans)
  with o(1) have "\<exists>out. smote env_ex cfg_ex ?df = Inr out \<and> length out = 5"
    by blast
  with 1 2 3 4 d draws show ?thesis
    by (intro conjI)
qed

subsection \<open>Runs with a tie, with a repeated row, and without candidates\<close>

lemma sqrt_squares [simp]: "sqrt 9 = 3" "sqrt 25 = 5"
  using real_sqrt_abs[of 3] real_sqrt_abs[of 5] by simp_all

lemma rows_E_distinct [simp]:
  "row_A \<noteq> row_E" "row_E \<noteq> row_A" "row_B \<noteq> row_E" "row_E \<noteq> row_B"
  by (simp_all add: row_A_def row_B_def row_E_def)

lemma join_tie:
  "filter (\<lambda>p. 0 < EuclideanDistance p) (approxSimilarityJoin hash_ex [row_A, row_B, row_E] [row_A, row_B, row_E] None) =
     [pair_AB, pair_AE, pair_BA, pair_BE, pair_EA, pair_EB]"
  by (simp add: approxSimilarityJoin_def collide_def keyDistance_def hash_ex_def
        pair_AB_def pair_BA_def pair_AE_def pair_BE_def pair_EA_def pair_EB_def row_A_def row_B_def row_E_def)

lemma selected_tie:
  "self_similarity_df_selected hash_ex cfg_k2 [row_A, row_B, row_E] =
     [(pair_AB, Suc 0), (pair_AE, 2), (pair_BA, Suc 0), (pair_BE, 2), (pair_EB, Suc 0), (pair_EA, 2)]"
  unfolding self_similarity_df_selected_def Let_def join_tie
  by (simp add: row_number_over_def
        pair_AB_def pair_BA_def pair_AE_def pair_BE_def pair_EA_def pair_EB_def cfg_k2_def cfg_ex_def)

lemma random_sel_tie:
  "df_random_sel env_tie 0 [(pair_AB, Suc 0), (pair_AE, 2), (pair_BA, Suc 0), (pair_BE, 2), (pair_EB, Suc 0), (pair_EA, 2)]
     = [pair_AB, pair_AE, pair_BE, pair_EA]"
  by (simp add: df_random_sel_def F_max_def env_tie_def env_ex_def
        pair_AB_def pair_BA_def pair_AE_def pair_BE_def pair_EA_def pair_EB_def)

lemma join_dup:
  "approxSimilarityJoin hash_ex [row_A, row_A, row_B] [row_A, row_A, row_B] None =
     [\<lparr>datasetA = row_A, datasetB = row_A, EuclideanDistance = 0\<rparr>, pair_AB, pair_BA,
      \<lparr>datasetA = row_B, datasetB = row_B, EuclideanDistance = 0\<rparr>]"
  by (simp add: approxSimilarityJoin_def collide_def keyDistance_def hash_ex_def
        pair_AB_def pair_BA_def row_A_def row_B_def)

lemma join_AD:
  "filter (\<lambda>p. 0 < EuclideanDistance p) (approxSimilarityJoin hash_ex [row_A, row_D] [row_A, row_D] None) = []"
  by (simp add: approxSimilarityJoin_def collide_def keyDistance_def hash_ex_def
        row_A_def row_D_def)

lemma selected_AD: "self_similarity_df_selected hash_ex cfg [row_A, row_D] = []"
  by (simp add: self_similarity_df_selected_def join_AD row_number_over_Nil)

lemma equal_features_run:
  "smote env_ex cfg_ex [row_A, row_D, row_C] = Inr [row_D, row_C, row_A]"
  by (simp add: smote_def neighbor_index_def fit_ex selected_AD batch_Nil reduce_union_def
        reassemble_ex)

lemma join_axis:
  "filter (\<lambda>p. 0 < EuclideanDistance p)
     (approxSimilarityJoin (hash_axis 1) [row_A, row_B] [row_A, row_B] None) = []"
  by (simp add: approxSimilarityJoin_def collide_def keyDistance_def hash_axis_def
        row_A_def row_B_def)

lemma selected_axis: "self_similarity_df_selected (hash_axis 1) cfg [row_A, row_B] = []"
  by (simp add: self_similarity_df_selected_def join_axis row_number_over_Nil)

lemma fit_axis: "brp_fit env_axis s b (x # xs) = Some (hash_axis b)"
  by (simp add: env_axis_def)

lemma reassemble_axis: "reassemble env_axis cfg [] [c, d] [m] = [d, m, c]"
  by (simp add: reassemble_def sort_by_rand_def with_row_number_def env_axis_def env_ex_def)

text \<open>
  The sentence of the specification fails on the minority rows \<open>A\<close> and \<open>B\<close> and the
  majority row \<open>C\<close>, with \<open>k = 1\<close> and \<open>multiplier = 1\<close>, when the hash function puts \<open>A\<close>
  and \<open>B\<close> into different buckets: the join pairs each row with itself only, no row is
  synthesized, and the output has 3 rows where the sentence counts 5. (The same happens
  when two minority rows have the same feature vector, see \<open>equal_features_run\<close>.)
\<close>

theorem no_collision_counterexample:
  "smote env_axis cfg_ex [row_A, row_B, row_C] = Inr [row_B, row_C, row_A] \<and>
   length (filter (\<lambda>r. label r = positive_label cfg_ex) [row_A, row_B, row_C]) *
     (nat (multiplier cfg_ex) + 1) +
   length (filter (\<lambda>r. label r = negative_label cfg_ex) [row_A, row_B, row_C]) = 5"
  by (simp add: smote_def neighbor_index_def fit_axis selected_axis batch_Nil reduce_union_def
        reassemble_axis cfg_ex_def)

section \<open>Rows synthesized per source\<close>

lemma selected_dup:
  "self_similarity_df_selected hash_ex cfg_ex [row_A, row_A, row_B] =
     [(pair_AB, Suc 0), (pair_BA, Suc 0)]"
  by (simp add: self_similarity_df_selected_def join_dup row_number_over_def
        pair_AB_def pair_BA_def)

text \<open>
  C3 on two runs. In the first, the two candidates of source \<open>A\<close> draw the same number,
  the maximum of their partition: both pairs pass \<open>rand == max_rand\<close>, and \<open>A\<close> gets two
  synthetic rows in the batch. In the second, the minority holds the row \<open>A\<close> twice:
  \<open>partitionBy("datasetA")\<close> puts the pairs of both copies into one partition, and the
  three minority rows, each with a candidate, get two synthetic rows.
\<close>

theorem batch_not_one_per_source:
  "df_random_sel env_tie 0 (self_similarity_df_selected hash_ex cfg_k2 [row_A, row_B, row_E]) =
     [pair_AB, pair_AE, pair_BE, pair_EA] \<and>
   batch env_ex (self_similarity_df_selected hash_ex cfg_ex [row_A, row_A, row_B]) 0 =
     [syn_AB, syn_BA]"
  by (simp add: selected_tie random_sel_tie selected_dup batch_ex)

end
